theory Spec2Isabelle
  imports Main "HOL-Library.Sublist"
begin

section \<open>The deployment script \<open>vercel-deploy.ts\<close>\<close>

text \<open>
  The script is a straight line of calls to the hosting platform's SDK. The model threads
  one state through every function: the lines written to the console and the requests
  sent to the platform, both in the order of execution. A function returns either a
  value (\<open>Return\<close>) or the status with which the process was ended (\<open>Exit\<close>): the
  source's \<open>error\<close> helper calls \<open>exit(1)\<close>, and \<open>process.exit\<close> does not return, so
  nothing after a call of \<open>error\<close> is executed.
\<close>

subsection \<open>Console, process and JavaScript values\<close>

datatype level = INFO | WARN | ERROR

record env_body =
  b_key :: string
  b_value :: string
  b_type :: string
  b_target :: "string list"

text \<open>The two request bodies the script passes to \<open>deployments.createDeployment\<close>.\<close>

datatype deploy_body =
    NewDeployment (nd_name: string) (nd_project: string) (nd_target: string)
                  (nd_gitSource_type: string) (nd_gitSource_ref: string)
  | Redeployment (rd_deploymentId: string) (rd_target: string)

datatype request =
    GetDeployments string nat
  | GetEnvironmentVariables string
  | CreateEnvironmentVariable string env_body
  | EditEnvironmentVariable string string env_body
  | CreateDeployment deploy_body

record state =
  console :: "(level \<times> string) list"
  requests :: "request list"

datatype 'a outcome = Exit nat | Return 'a

definition initial :: state where
  "initial = \<lparr>console = [], requests = []\<rparr>"

definition log :: "string \<Rightarrow> state \<Rightarrow> state" where
  "log message s = s\<lparr>console := console s @ [(INFO, message)]\<rparr>"

definition warn :: "string \<Rightarrow> state \<Rightarrow> state" where
  "warn message s = s\<lparr>console := console s @ [(WARN, message)]\<rparr>"

text \<open>\<open>error\<close> prints the message and ends the process with status 1.\<close>

definition error :: "string \<Rightarrow> state \<Rightarrow> 'a outcome \<times> state" where
  "error message s = (Exit 1, s\<lparr>console := console s @ [(ERROR, message)]\<rparr>)"

definition send :: "request \<Rightarrow> state \<Rightarrow> state" where
  "send r s = s\<lparr>requests := requests s @ [r]\<rparr>"

text \<open>
  Sequencing: the continuation runs only when the first computation returned; an exit
  ends the whole run.
\<close>

definition and_then ::
  "'a outcome \<times> state \<Rightarrow> ('a \<Rightarrow> state \<Rightarrow> 'b outcome \<times> state) \<Rightarrow> 'b outcome \<times> state" where
  "and_then m f = (case m of (Exit c, s) \<Rightarrow> (Exit c, s) | (Return x, s) \<Rightarrow> f x s)"

text \<open>
  JavaScript truthiness of a value of type \<open>string | undefined | null\<close>: \<open>undefined\<close>,
  \<open>null\<close> and the empty string are falsy. \<open>or_null v\<close> is \<open>v || null\<close>.
\<close>

definition falsy :: "string option \<Rightarrow> bool" where
  "falsy v = (case v of None \<Rightarrow> True | Some x \<Rightarrow> x = [])"

definition or_null :: "string option \<Rightarrow> string option" where
  "or_null v = (if falsy v then None else v)"

text \<open>A value inside a template literal: \<open>undefined\<close> prints as the word.\<close>

definition template :: "string option \<Rightarrow> string" where
  "template v = (case v of None \<Rightarrow> ''undefined'' | Some x \<Rightarrow> x)"

text \<open>
  \<open>String.prototype.toLowerCase\<close> on the ASCII letters; strings are byte lists here, and
  bytes outside \<open>A\<close>..\<open>Z\<close> are left as they are.
\<close>

definition toLowerCase_char :: "char \<Rightarrow> char" where
  "toLowerCase_char c =
     (case map_of (zip ''ABCDEFGHIJKLMNOPQRSTUVWXYZ'' ''abcdefghijklmnopqrstuvwxyz'') c of
        None \<Rightarrow> c
      | Some l \<Rightarrow> l)"

definition toLowerCase :: "string \<Rightarrow> string" where
  "toLowerCase s = map toLowerCase_char s"

text \<open>
  \<open>String.prototype.includes\<close>: scan the positions of \<open>s\<close> from the left for one at which
  \<open>searchString\<close> starts.
\<close>

fun includes_str :: "string \<Rightarrow> string \<Rightarrow> bool" where
  "includes_str [] searchString = (searchString = [])"
| "includes_str (c # s) searchString =
     (prefix searchString (c # s) \<or> includes_str s searchString)"

subsection \<open>Configuration\<close>

type_synonym process_env = "string \<Rightarrow> string option"

definition requiredVars :: "string list" where
  "requiredVars = [''VERCEL_TOKEN'', ''VERCEL_PROJECT_ID'', ''VERCEL_ORG_ID'', ''FE_BRANCH'']"

text \<open>The loop of \<open>validateEnvironment\<close> over the names it is given.\<close>

fun validate_vars :: "process_env \<Rightarrow> string list \<Rightarrow> state \<Rightarrow> unit outcome \<times> state" where
  "validate_vars env [] s = (Return (), s)"
| "validate_vars env (varName # rest) s =
     (if falsy (env varName)
      then error (''Missing required environment variable: '' @ varName) s
      else validate_vars env rest s)"

definition validateEnvironment :: "process_env \<Rightarrow> state \<Rightarrow> unit outcome \<times> state" where
  "validateEnvironment env s = validate_vars env requiredVars s"

record config =
  c_token :: string
  c_projectId :: string
  c_orgId :: string
  c_branch :: string
  c_targetApiUrl :: string

text \<open>
  After \<open>validateEnvironment\<close> each of the four variables is a non-empty string, and
  \<open>template\<close> gives that string.
\<close>

definition getConfig :: "process_env \<Rightarrow> state \<Rightarrow> config outcome \<times> state" where
  "getConfig env s =
     and_then (validateEnvironment env s) (\<lambda>_ s.
       (Return \<lparr>c_token = template (env ''VERCEL_TOKEN''),
                c_projectId = template (env ''VERCEL_PROJECT_ID''),
                c_orgId = template (env ''VERCEL_ORG_ID''),
                c_branch = template (env ''FE_BRANCH''),
                c_targetApiUrl =
                  ''https://api.pr-'' @ template (env ''FE_BRANCH'') @ ''.deploy-preview.mrdibre.com''\<rparr>,
        s))"

subsection \<open>The platform's SDK\<close>

text \<open>
  The fields of the platform's records that the script reads. A field that the response
  may leave out is an option; \<open>d_meta_githubCommitRef\<close> is \<open>meta?.githubCommitRef\<close>,
  absent when \<open>meta\<close> is.
\<close>

record deployment =
  d_uid :: "string option"
  d_name :: "string option"
  d_state :: "string option"
  d_meta_githubCommitRef :: "string option"

record env_var =
  e_id :: "string option"
  e_key :: "string option"

record deploy_response =
  r_url :: "string option"
  r_uid :: "string option"

text \<open>
  A client of the SDK: what each call answers. \<open>Inl err\<close> is a call that throws \<open>err\<close>
  (given as the text it prints as); the listing calls answer with their \<open>deployments\<close>
  and \<open>envs\<close> fields, \<open>None\<close> when the field is absent. The platform itself is a
  parameter of the model: \<open>Vercel token\<close> is the client \<open>new Vercel({bearerToken})\<close>.
\<close>

record sdk =
  getDeployments :: "string \<Rightarrow> nat \<Rightarrow> string + deployment list option"
  getEnvironmentVariables :: "string \<Rightarrow> string + env_var list option"
  createEnvironmentVariable :: "string \<Rightarrow> env_body \<Rightarrow> string + unit"
  editEnvironmentVariable :: "string \<Rightarrow> string \<Rightarrow> env_body \<Rightarrow> string + unit"
  createDeployment_call :: "deploy_body \<Rightarrow> string + deploy_response"

definition initializeVercel :: "(string \<Rightarrow> sdk) \<Rightarrow> string \<Rightarrow> sdk" where
  "initializeVercel Vercel token = Vercel token"

subsection \<open>Step 1: the existing deployment\<close>

text \<open>
  The callback of \<open>find\<close>. With \<open>name\<close> absent, \<open>name?.toLowerCase().includes(...)\<close> is
  \<open>undefined\<close>, which \<open>||\<close> and \<open>&&\<close> treat as false.
\<close>

definition matchesBranch :: "deployment \<Rightarrow> string \<Rightarrow> bool" where
  "matchesBranch deployment branch =
     (d_meta_githubCommitRef deployment = Some branch \<or>
      (case d_name deployment of
         None \<Rightarrow> False
       | Some n \<Rightarrow> includes_str (toLowerCase n) (toLowerCase branch)))"

definition isActiveState :: "deployment \<Rightarrow> bool" where
  "isActiveState deployment =
     (d_state deployment = Some ''READY'' \<or> d_state deployment = Some ''BUILDING'')"

definition existingDeployment :: "deployment list \<Rightarrow> string \<Rightarrow> deployment option" where
  "existingDeployment deployments branch =
     find (\<lambda>deployment. matchesBranch deployment branch \<and> isActiveState deployment) deployments"

text \<open>\<open>existingDeployment?.uid || null\<close>\<close>

definition uid_or_null :: "deployment option \<Rightarrow> string option" where
  "uid_or_null found = (case found of None \<Rightarrow> None | Some d \<Rightarrow> or_null (d_uid d))"

definition checkExistingDeployment ::
  "sdk \<Rightarrow> string \<Rightarrow> string \<Rightarrow> state \<Rightarrow> string option outcome \<times> state" where
  "checkExistingDeployment vercel projectId branch s =
     (let s1 = send (GetDeployments projectId 50) (log ''Checking for existing deployments...'' s)
      in case getDeployments vercel projectId 50 of
           Inl err \<Rightarrow> error (''Failed to fetch deployments: '' @ err) s1
         | Inr None \<Rightarrow> (Return None, s1)
         | Inr (Some deployments) \<Rightarrow>
             (Return (uid_or_null (existingDeployment deployments branch)), s1))"

subsection \<open>Step 2: the environment variable\<close>

definition viteApiUrlEnv :: "env_var list \<Rightarrow> env_var option" where
  "viteApiUrlEnv envs = find (\<lambda>env. e_key env = Some ''VITE_API_URL'') envs"

text \<open>\<open>viteApiUrlEnv?.id || null\<close>\<close>

definition id_or_null :: "env_var option \<Rightarrow> string option" where
  "id_or_null found = (case found of None \<Rightarrow> None | Some e \<Rightarrow> or_null (e_id e))"

definition getEnvVarId :: "sdk \<Rightarrow> string \<Rightarrow> state \<Rightarrow> string option outcome \<times> state" where
  "getEnvVarId vercel projectId s =
     (let s1 = send (GetEnvironmentVariables projectId)
                 (log ''Fetching VITE_API_URL environment variable ID...'' s)
      in case getEnvironmentVariables vercel projectId of
           Inl err \<Rightarrow> error (''Failed to fetch environment variables: '' @ err) s1
         | Inr None \<Rightarrow> (Return None, s1)
         | Inr (Some envs) \<Rightarrow> (Return (id_or_null (viteApiUrlEnv envs)), s1))"

definition requestBody :: "string \<Rightarrow> env_body" where
  "requestBody targetApiUrl =
     \<lparr>b_key = ''VITE_API_URL'', b_value = targetApiUrl, b_type = ''plain'',
      b_target = [''preview'']\<rparr>"

definition updateEnvVar ::
  "sdk \<Rightarrow> string \<Rightarrow> string option \<Rightarrow> string \<Rightarrow> state \<Rightarrow> unit outcome \<times> state" where
  "updateEnvVar vercel projectId envVarId targetApiUrl s =
     (if falsy envVarId then
        (let s1 = send (CreateEnvironmentVariable projectId (requestBody targetApiUrl))
                    (warn ''VITE_API_URL environment variable not found, creating new one...'' s)
         in case createEnvironmentVariable vercel projectId (requestBody targetApiUrl) of
              Inl err \<Rightarrow> error (''Failed to update environment variable: '' @ err) s1
            | Inr _ \<Rightarrow> (Return (), log ''Created new VITE_API_URL environment variable'' s1))
      else
        (let s1 = send (EditEnvironmentVariable projectId (template envVarId)
                          (requestBody targetApiUrl))
                    (log (''Updating VITE_API_URL environment variable (ID: '' @
                            template envVarId @ '')...'') s)
         in case editEnvironmentVariable vercel projectId (template envVarId)
                   (requestBody targetApiUrl) of
              Inl err \<Rightarrow> error (''Failed to update environment variable: '' @ err) s1
            | Inr _ \<Rightarrow> (Return (), log (''Updated VITE_API_URL to: '' @ targetApiUrl) s1)))"

subsection \<open>Step 3: deploy or redeploy\<close>

text \<open>The lines both deploy functions print for a response, under their own headline.\<close>

definition report :: "string \<Rightarrow> string \<Rightarrow> deploy_response \<Rightarrow> state \<Rightarrow> state" where
  "report headline fallback response s =
     (if \<not> falsy (r_url response)
      then log (''Deployment ID: '' @ template (r_uid response))
             (log (''Deployment URL: https://'' @ template (r_url response))
                (log headline s))
      else log fallback s)"

definition createDeployment :: "sdk \<Rightarrow> string \<Rightarrow> string \<Rightarrow> state \<Rightarrow> unit outcome \<times> state" where
  "createDeployment vercel projectId branch s =
     (let body = NewDeployment (''pr-'' @ branch) projectId ''preview'' ''github'' branch;
          s1 = send (CreateDeployment body) (log ''Creating new deployment...'' s)
      in case createDeployment_call vercel body of
           Inl err \<Rightarrow> error (''Failed to create new deployment: '' @ err) s1
         | Inr response \<Rightarrow>
             (Return (), report ''New deployment created successfully!''
                           ''Deployment triggered successfully'' response s1))"

text \<open>
  The \<open>catch\<close> of \<open>redeployExisting\<close> reads the configuration again, from the same
  process environment, and creates a deployment with a client of its own.
\<close>

definition redeployExisting ::
  "(string \<Rightarrow> sdk) \<Rightarrow> process_env \<Rightarrow> sdk \<Rightarrow> string \<Rightarrow> state \<Rightarrow> unit outcome \<times> state" where
  "redeployExisting Vercel env vercel existingDeploymentId s =
     (let body = Redeployment existingDeploymentId ''preview'';
          s1 = send (CreateDeployment body)
                 (log (''Redeploying existing deployment (ID: '' @ existingDeploymentId @ '')...'') s)
      in case createDeployment_call vercel body of
           Inr response \<Rightarrow>
             (Return (), report ''Redeployment triggered successfully!''
                           ''Redeployment triggered successfully'' response s1)
         | Inl err \<Rightarrow>
             and_then
               (getConfig env
                  (warn ''Failed to redeploy existing deployment, creating new one instead...'' s1))
               (\<lambda>config. createDeployment (initializeVercel Vercel (c_token config))
                             (c_projectId config) (c_branch config)))"

subsection \<open>The run\<close>

text \<open>
  \<open>main\<close>, from a fresh process. Its own \<open>catch\<close> has nothing to catch here: every call
  that can throw is inside the \<open>try\<close> of the function that makes it.
\<close>

definition main_from :: "(string \<Rightarrow> sdk) \<Rightarrow> process_env \<Rightarrow> state \<Rightarrow> unit outcome \<times> state" where
  "main_from Vercel env s0 =
     and_then (getConfig env s0) (\<lambda>config s.
       let s1 = log (''Target API URL: '' @ c_targetApiUrl config)
                  (log (''Starting Vercel deployment management for branch: '' @ c_branch config) s);
           vercel = initializeVercel Vercel (c_token config)
       in and_then (checkExistingDeployment vercel (c_projectId config) (c_branch config) s1)
            (\<lambda>existing s2.
       and_then (getEnvVarId vercel (c_projectId config) s2) (\<lambda>envVarId s3.
       and_then (updateEnvVar vercel (c_projectId config) envVarId (c_targetApiUrl config) s3)
            (\<lambda>_ s4.
       and_then
         (if \<not> falsy existing
          then redeployExisting Vercel env vercel (template existing)
                 (log (''Found existing deployment: '' @ template existing) s4)
          else createDeployment vercel (c_projectId config) (c_branch config)
                 (log (''No existing deployment found for branch: '' @ c_branch config) s4))
         (\<lambda>_ s5. (Return (), log ''Vercel deployment process completed successfully!'' s5))))))"

definition main :: "(string \<Rightarrow> sdk) \<Rightarrow> process_env \<Rightarrow> unit outcome \<times> state" where
  "main Vercel env = main_from Vercel env initial"

subsection \<open>The selection filter of \<open>vercel.sh\<close>\<close>

text \<open>
  \<open>check_existing_deployment\<close> pipes the listing through
  \<^verbatim>\<open>jq -r --arg branch "$FE_BRANCH" '.deployments[]? |
    select(.meta.githubCommitRef == $branch or .name | test($branch)) |
    select(.state == "READY" or .state == "BUILDING") | .uid' | head -1\<close>.
  In jq the pipe binds weaker than \<open>or\<close>, so the first condition reads
  \<open>(.meta.githubCommitRef == $branch or .name) | test($branch)\<close>: \<open>test\<close> receives the
  boolean that \<open>or\<close> produced. \<open>test\<close> on anything but a string is an error, and an
  error ends the output of the program. The regular-expression matcher that \<open>test\<close>
  applies to a string is a parameter.
\<close>

datatype json = JNull | JBool bool | JString string

datatype jq_error = CannotBeMatched json

text \<open>A field of an object: \<open>null\<close> when absent.\<close>

definition field :: "string option \<Rightarrow> json" where
  "field v = (case v of None \<Rightarrow> JNull | Some x \<Rightarrow> JString x)"

definition jq_truthy :: "json \<Rightarrow> bool" where
  "jq_truthy v = (case v of JNull \<Rightarrow> False | JBool b \<Rightarrow> b | JString _ \<Rightarrow> True)"

definition jq_or :: "json \<Rightarrow> json \<Rightarrow> json" where
  "jq_or a b = JBool (jq_truthy a \<or> jq_truthy b)"

definition jq_test :: "(string \<Rightarrow> string \<Rightarrow> bool) \<Rightarrow> json \<Rightarrow> string \<Rightarrow> jq_error + bool" where
  "jq_test regex v re =
     (case v of JString x \<Rightarrow> Inr (regex re x) | _ \<Rightarrow> Inl (CannotBeMatched v))"

definition select_branch ::
  "(string \<Rightarrow> string \<Rightarrow> bool) \<Rightarrow> deployment \<Rightarrow> string \<Rightarrow> jq_error + bool" where
  "select_branch regex d branch =
     jq_test regex
       (jq_or (JBool (field (d_meta_githubCommitRef d) = JString branch)) (field (d_name d)))
       branch"

definition select_state :: "deployment \<Rightarrow> bool" where
  "select_state d =
     jq_truthy (jq_or (JBool (field (d_state d) = JString ''READY''))
                      (JBool (field (d_state d) = JString ''BUILDING'')))"

text \<open>What \<open>jq -r\<close> prints for a value.\<close>

definition jq_raw :: "json \<Rightarrow> string" where
  "jq_raw v =
     (case v of JNull \<Rightarrow> ''null'' | JBool b \<Rightarrow> (if b then ''true'' else ''false'')
      | JString x \<Rightarrow> x)"

text \<open>The lines the program prints for the elements of \<open>.deployments\<close>, in order.\<close>

fun jq_lines :: "(string \<Rightarrow> string \<Rightarrow> bool) \<Rightarrow> deployment list \<Rightarrow> string \<Rightarrow> string list" where
  "jq_lines regex [] branch = []"
| "jq_lines regex (d # ds) branch =
     (case select_branch regex d branch of
        Inl err \<Rightarrow> []
      | Inr keep \<Rightarrow>
          (if keep \<and> select_state d then [jq_raw (field (d_uid d))] else [])
            @ jq_lines regex ds branch)"

definition head_1 :: "string list \<Rightarrow> string" where
  "head_1 lines = (case lines of [] \<Rightarrow> [] | l # _ \<Rightarrow> l)"

text \<open>
  The text the pipeline leaves: a uid, or the empty string, which the script's \<open>main\<close>
  reads as no deployment (\<open>-n\<close>). \<open>None\<close> is a response without \<open>deployments\<close>, which
  \<open>[]?\<close> passes over.
\<close>

definition check_existing_deployment_jq ::
  "(string \<Rightarrow> string \<Rightarrow> bool) \<Rightarrow> deployment list option \<Rightarrow> string \<Rightarrow> string" where
  "check_existing_deployment_jq regex deployments branch =
     head_1 (case deployments of None \<Rightarrow> [] | Some ds \<Rightarrow> jq_lines regex ds branch)"

subsection \<open>Platforms with fixed answers\<close>

text \<open>
  A platform that answers every call of one kind in the same way, whatever the token:
  the listing of deployments, the listing of variables, the create or edit of the
  variable, the redeploy and the create of a deployment.
\<close>

definition fixed_platform ::
  "string + deployment list option \<Rightarrow> string + env_var list option \<Rightarrow> string + unit \<Rightarrow>
   string + deploy_response \<Rightarrow> string + deploy_response \<Rightarrow> string \<Rightarrow> sdk" where
  "fixed_platform deployments envs upsert redeploy create token =
     \<lparr>getDeployments = (\<lambda>projectId limit. deployments),
      getEnvironmentVariables = (\<lambda>idOrName. envs),
      createEnvironmentVariable = (\<lambda>idOrName body. upsert),
      editEnvironmentVariable = (\<lambda>idOrName id body. upsert),
      createDeployment_call =
        (\<lambda>body. case body of Redeployment _ _ \<Rightarrow> redeploy | NewDeployment _ _ _ _ _ \<Rightarrow> create)\<rparr>"

definition env_of :: "(string \<times> string) list \<Rightarrow> process_env" where
  "env_of vars = map_of vars"

definition full_env :: process_env where
  "full_env = env_of [(''VERCEL_TOKEN'', ''tok''), (''VERCEL_PROJECT_ID'', ''prj_1''),
                      (''VERCEL_ORG_ID'', ''team_1''), (''FE_BRANCH'', ''feature'')]"

definition no_url :: deploy_response where
  "no_url = \<lparr>r_url = None, r_uid = None\<rparr>"

subsection \<open>Reading a run\<close>

text \<open>
  All four required variables are set and non-empty.
\<close>

definition configured :: "process_env \<Rightarrow> bool" where
  "configured env = list_all (\<lambda>varName. \<not> falsy (env varName)) requiredVars"

text \<open>The bodies of the deployment requests among the requests of a run, in order.\<close>

fun deploy_requests :: "request list \<Rightarrow> deploy_body list" where
  "deploy_requests [] = []"
| "deploy_requests (CreateDeployment body # rs) = body # deploy_requests rs"
| "deploy_requests (_ # rs) = deploy_requests rs"

text \<open>The requests that create or edit an environment variable, in order.\<close>

fun env_requests :: "request list \<Rightarrow> request list" where
  "env_requests [] = []"
| "env_requests (CreateEnvironmentVariable p b # rs) =
     CreateEnvironmentVariable p b # env_requests rs"
| "env_requests (EditEnvironmentVariable p i b # rs) =
     EditEnvironmentVariable p i b # env_requests rs"
| "env_requests (_ # rs) = env_requests rs"

text \<open>
  The selection as the specification words it: the branch reference equals the branch,
  or the display name contains the branch as a substring once both are in lower case;
  and the state is \<open>READY\<close> or \<open>BUILDING\<close>.
\<close>

definition spec_branchMatch :: "deployment \<Rightarrow> string \<Rightarrow> bool" where
  "spec_branchMatch d B =
     (d_meta_githubCommitRef d = Some B \<or>
      (\<exists>n. d_name d = Some n \<and> sublist (toLowerCase B) (toLowerCase n)))"

definition spec_selected :: "deployment \<Rightarrow> string \<Rightarrow> bool" where
  "spec_selected d B =
     (spec_branchMatch d B \<and> (d_state d = Some ''READY'' \<or> d_state d = Some ''BUILDING''))"

text \<open>
  The script is configured with this token, project and branch: all four required
  variables are set and non-empty, three of them to the given values.
\<close>

definition configured_as :: "process_env \<Rightarrow> string \<Rightarrow> string \<Rightarrow> string \<Rightarrow> bool" where
  "configured_as env tok pid B =
     (configured env \<and> env ''VERCEL_TOKEN'' = Some tok \<and>
      env ''VERCEL_PROJECT_ID'' = Some pid \<and> env ''FE_BRANCH'' = Some B)"

text \<open>What steps 1 and 2 return for a listing that arrived.\<close>

definition listed_uid :: "deployment list option \<Rightarrow> string \<Rightarrow> string option" where
  "listed_uid listing branch =
     (case listing of None \<Rightarrow> None
      | Some deployments \<Rightarrow> uid_or_null (existingDeployment deployments branch))"

definition listed_id :: "env_var list option \<Rightarrow> string option" where
  "listed_id listing =
     (case listing of None \<Rightarrow> None | Some envs \<Rightarrow> id_or_null (viteApiUrlEnv envs))"

text \<open>The request \<open>updateEnvVar\<close> sends for an identifier, and the platform's answer to it.\<close>

definition upsert_request :: "string \<Rightarrow> string option \<Rightarrow> string \<Rightarrow> request" where
  "upsert_request projectId envVarId targetApiUrl =
     (if falsy envVarId then CreateEnvironmentVariable projectId (requestBody targetApiUrl)
      else EditEnvironmentVariable projectId (template envVarId) (requestBody targetApiUrl))"

definition upsert_answer :: "sdk \<Rightarrow> string \<Rightarrow> string option \<Rightarrow> string \<Rightarrow> string + unit" where
  "upsert_answer vercel projectId envVarId targetApiUrl =
     (if falsy envVarId then createEnvironmentVariable vercel projectId (requestBody targetApiUrl)
      else editEnvironmentVariable vercel projectId (template envVarId)
             (requestBody targetApiUrl))"

definition url_of :: "string \<Rightarrow> string" where
  "url_of B = ''https://api.pr-'' @ B @ ''.deploy-preview.mrdibre.com''"

section \<open>Properties\<close>

subsection \<open>The state and the sequencing\<close>

lemma requests_log [simp]: "requests (log m s) = requests s"
  and requests_warn [simp]: "requests (warn m s) = requests s"
  and requests_send [simp]: "requests (send r s) = requests s @ [r]"
  and console_log [simp]: "console (log m s) = console s @ [(INFO, m)]"
  and console_warn [simp]: "console (warn m s) = console s @ [(WARN, m)]"
  and console_send [simp]: "console (send r s) = console s"
  by (simp_all add: log_def warn_def send_def)

lemma error_simps [simp]:
  "fst (error m s) = Exit 1"
  "requests (snd (error m s)) = requests s"
  "console (snd (error m s)) = console s @ [(ERROR, m)]"
  by (simp_all add: error_def)

lemma and_then_Return [simp]: "and_then (Return x, s) f = f x s"
  and and_then_Exit [simp]: "and_then (Exit c, s) f = (Exit c, s)"
  by (simp_all add: and_then_def)

lemma requests_report [simp]: "requests (report h f r s) = requests s"
  by (simp add: report_def)

subsection \<open>Configuration\<close>

lemma validate_vars_ok:
  "list_all (\<lambda>v. \<not> falsy (env v)) vs \<Longrightarrow> validate_vars env vs s = (Return (), s)"
  by (induction vs) simp_all

lemma validate_vars_missing:
  "\<not> list_all (\<lambda>v. \<not> falsy (env v)) vs \<Longrightarrow>
   \<exists>v\<in>set vs. falsy (env v) \<and>
     validate_vars env vs s = error (''Missing required environment variable: '' @ v) s"
  by (induction vs) auto

lemma validateEnvironment_ok:
  "configured env \<Longrightarrow> validateEnvironment env s = (Return (), s)"
  by (simp add: configured_def validateEnvironment_def validate_vars_ok)

lemma getConfig_ok:
  "configured env \<Longrightarrow>
   getConfig env s =
     (Return \<lparr>c_token = template (env ''VERCEL_TOKEN''),
              c_projectId = template (env ''VERCEL_PROJECT_ID''),
              c_orgId = template (env ''VERCEL_ORG_ID''),
              c_branch = template (env ''FE_BRANCH''),
              c_targetApiUrl =
                ''https://api.pr-'' @ template (env ''FE_BRANCH'') @ ''.deploy-preview.mrdibre.com''\<rparr>,
      s)"
  by (simp add: getConfig_def validateEnvironment_ok)

lemma getConfig_missing:
  assumes "\<not> configured env"
  shows "\<exists>v\<in>set requiredVars. falsy (env v) \<and>
           getConfig env s = (Exit 1, s\<lparr>console := console s @
             [(ERROR, ''Missing required environment variable: '' @ v)]\<rparr>)"
proof -
  from assms obtain v where v: "v \<in> set requiredVars" "falsy (env v)"
    and r: "validate_vars env requiredVars s =
              error (''Missing required environment variable: '' @ v) s"
    unfolding configured_def using validate_vars_missing [of env requiredVars s] by blast
  have "getConfig env s = (Exit 1, s\<lparr>console := console s @
             [(ERROR, ''Missing required environment variable: '' @ v)]\<rparr>)"
    by (simp add: getConfig_def validateEnvironment_def r error_def)
  with v show ?thesis by blast
qed

lemma configured_full_env: "configured full_env"
  by (simp add: configured_def full_env_def env_of_def requiredVars_def falsy_def)

lemma createDeployment_requests:
  "requests (snd (createDeployment vercel projectId branch s)) =
     requests s @
     [CreateDeployment (NewDeployment (''pr-'' @ branch) projectId ''preview'' ''github'' branch)]"
  by (simp add: createDeployment_def Let_def split: sum.splits)

subsection \<open>The steps of a run\<close>

lemma checkExistingDeployment_failed:
  "getDeployments vercel projectId 50 = Inl err \<Longrightarrow>
   checkExistingDeployment vercel projectId branch s =
     error (''Failed to fetch deployments: '' @ err)
       (send (GetDeployments projectId 50) (log ''Checking for existing deployments...'' s))"
  by (simp add: checkExistingDeployment_def)

lemma checkExistingDeployment_listed:
  "getDeployments vercel projectId 50 = Inr listing \<Longrightarrow>
   checkExistingDeployment vercel projectId branch s =
     (Return (listed_uid listing branch),
      send (GetDeployments projectId 50) (log ''Checking for existing deployments...'' s))"
  by (simp add: checkExistingDeployment_def listed_uid_def split: option.splits)

lemma getEnvVarId_failed:
  "getEnvironmentVariables vercel projectId = Inl err \<Longrightarrow>
   getEnvVarId vercel projectId s =
     error (''Failed to fetch environment variables: '' @ err)
       (send (GetEnvironmentVariables projectId)
          (log ''Fetching VITE_API_URL environment variable ID...'' s))"
  by (simp add: getEnvVarId_def)

lemma getEnvVarId_listed:
  "getEnvironmentVariables vercel projectId = Inr listing \<Longrightarrow>
   getEnvVarId vercel projectId s =
     (Return (listed_id listing),
      send (GetEnvironmentVariables projectId)
        (log ''Fetching VITE_API_URL environment variable ID...'' s))"
  by (simp add: getEnvVarId_def listed_id_def split: option.splits)

lemma last_console_error [simp]: "last (console (snd (error m s))) = (ERROR, m)"
  by (simp add: error_def)

lemma updateEnvVar_requests:
  "requests (snd (updateEnvVar vercel projectId envVarId targetApiUrl s)) =
     requests s @ [upsert_request projectId envVarId targetApiUrl]"
  by (simp add: updateEnvVar_def upsert_request_def Let_def split: sum.splits)

lemma updateEnvVar_failed:
  "upsert_answer vercel projectId envVarId targetApiUrl = Inl err \<Longrightarrow>
   \<exists>s'. updateEnvVar vercel projectId envVarId targetApiUrl s =
          error (''Failed to update environment variable: '' @ err) s' \<and>
        requests s' = requests s @ [upsert_request projectId envVarId targetApiUrl]"
  by (cases "falsy envVarId")
    (auto simp add: updateEnvVar_def upsert_answer_def upsert_request_def Let_def intro!: exI)

lemma updateEnvVar_done:
  "upsert_answer vercel projectId envVarId targetApiUrl = Inr u \<Longrightarrow>
   \<exists>s'. updateEnvVar vercel projectId envVarId targetApiUrl s = (Return (), s') \<and>
        requests s' = requests s @ [upsert_request projectId envVarId targetApiUrl] \<and>
        (\<forall>m. (ERROR, m) \<in> set (console s') \<longrightarrow> (ERROR, m) \<in> set (console s))"
  by (cases "falsy envVarId")
    (auto simp add: updateEnvVar_def upsert_answer_def upsert_request_def Let_def)

lemma main_configured:
  assumes "configured_as env tok pid B"
  shows "main Vercel env =
     (let s1 = log (''Target API URL: '' @ url_of B)
                  (log (''Starting Vercel deployment management for branch: '' @ B) initial)
       in and_then (checkExistingDeployment (Vercel tok) pid B s1)
            (\<lambda>existing s2.
       and_then (getEnvVarId (Vercel tok) pid s2) (\<lambda>envVarId s3.
       and_then (updateEnvVar (Vercel tok) pid envVarId (url_of B) s3)
            (\<lambda>_ s4.
       and_then
         (if \<not> falsy existing
          then redeployExisting Vercel env (Vercel tok) (template existing)
                 (log (''Found existing deployment: '' @ template existing) s4)
          else createDeployment (Vercel tok) pid B
                 (log (''No existing deployment found for branch: '' @ B) s4))
         (\<lambda>_ s5. (Return (), log ''Vercel deployment process completed successfully!'' s5))))))"
  using assms
  by (simp add: configured_as_def main_def main_from_def getConfig_ok initializeVercel_def
      template_def url_of_def Let_def cong del: if_weak_cong)

lemma and_then_error [simp]: "and_then (error m s) f = error m s"
  by (simp add: error_def)

lemma error_report [simp]:
  "(ERROR, m) \<in> set (console (report h f r s)) \<longleftrightarrow> (ERROR, m) \<in> set (console s)"
  by (simp add: report_def)

lemma createDeployment_failed:
  "createDeployment_call vercel
     (NewDeployment (''pr-'' @ branch) projectId ''preview'' ''github'' branch) = Inl err \<Longrightarrow>
   createDeployment vercel projectId branch s =
     error (''Failed to create new deployment: '' @ err)
       (send (CreateDeployment
                (NewDeployment (''pr-'' @ branch) projectId ''preview'' ''github'' branch))
          (log ''Creating new deployment...'' s))"
  by (simp add: createDeployment_def)

lemma createDeployment_done:
  "createDeployment_call vercel
     (NewDeployment (''pr-'' @ branch) projectId ''preview'' ''github'' branch) = Inr response \<Longrightarrow>
   createDeployment vercel projectId branch s =
     (Return (),
      report ''New deployment created successfully!'' ''Deployment triggered successfully'' response
        (send (CreateDeployment
                 (NewDeployment (''pr-'' @ branch) projectId ''preview'' ''github'' branch))
           (log ''Creating new deployment...'' s)))"
  by (simp add: createDeployment_def)

lemma redeployExisting_failed:
  assumes "configured_as env tok pid B"
    and "createDeployment_call vercel (Redeployment uid ''preview'') = Inl err"
  shows "redeployExisting Vercel env vercel uid s =
     createDeployment (Vercel tok) pid B
       (warn ''Failed to redeploy existing deployment, creating new one instead...''
          (send (CreateDeployment (Redeployment uid ''preview''))
             (log (''Redeploying existing deployment (ID: '' @ uid @ '')...'') s)))"
  using assms
  by (simp add: redeployExisting_def configured_as_def getConfig_ok initializeVercel_def
      template_def)

lemma listed_uid_truthy: "listed_uid listing B = Some uid \<Longrightarrow> uid \<noteq> []"
  by (auto simp: listed_uid_def uid_or_null_def or_null_def falsy_def
      split: option.splits if_splits)

lemma fixed_platform_simps [simp]:
  "getDeployments (fixed_platform d e u r c t) p n = d"
  "getEnvironmentVariables (fixed_platform d e u r c t) p = e"
  "createEnvironmentVariable (fixed_platform d e u r c t) p b = u"
  "editEnvironmentVariable (fixed_platform d e u r c t) p i b = u"
  "createDeployment_call (fixed_platform d e u r c t) (Redeployment x y) = r"
  "createDeployment_call (fixed_platform d e u r c t) (NewDeployment n1 n2 n3 n4 n5) = c"
  by (simp_all add: fixed_platform_def)

lemma configured_as_full_env: "configured_as full_env ''tok'' ''prj_1'' ''feature''"
  by (simp add: configured_as_def configured_full_env) (simp add: full_env_def env_of_def)

lemma upsert_answer_fixed [simp]:
  "upsert_answer (fixed_platform d e u r c t) p i url = u"
  by (simp add: upsert_answer_def)

lemma no_error_lines_before_upsert:
  "(ERROR, m) \<notin> set (console (send r2 (log m3 (send r1 (log m2 (log m1 (log m0 initial)))))))"
  by (simp add: initial_def)

lemma listed_uid_ready [simp]:
  "listed_uid (Some [\<lparr>d_uid = Some ''dpl_1'', d_name = Some ''pr-feature'',
                      d_state = Some ''READY'', d_meta_githubCommitRef = Some ''feature''\<rparr>])
     ''feature'' = Some ''dpl_1''"
  by (simp add: listed_uid_def existingDeployment_def matchesBranch_def isActiveState_def
      uid_or_null_def or_null_def falsy_def)

lemma requests_finish [simp]:
  "requests (snd (and_then m (\<lambda>_ s. (Return (), log x s)))) = requests (snd m)"
proof (cases m)
  case (Pair a s)
  then show ?thesis by (cases a) simp_all
qed

lemma deploy_requests_append [simp]:
  "deploy_requests (xs @ ys) = deploy_requests xs @ deploy_requests ys"
  by (induction xs rule: deploy_requests.induct) simp_all

lemma env_requests_append [simp]:
  "env_requests (xs @ ys) = env_requests xs @ env_requests ys"
  by (induction xs rule: env_requests.induct) simp_all

lemma upsert_request_kinds [simp]:
  "deploy_requests (upsert_request p i u # rs) = deploy_requests rs"
  "env_requests (upsert_request p i u # rs) = upsert_request p i u # env_requests rs"
  by (simp_all add: upsert_request_def)

lemma requests_getConfig: "requests (snd (getConfig env s)) = requests s"
proof (cases "configured env")
  case True
  then show ?thesis by (simp add: getConfig_ok)
next
  case False
  from getConfig_missing [OF this, of s] show ?thesis by auto
qed

lemma redeployExisting_requests:
  "\<exists>rest. requests (snd (redeployExisting Vercel env vercel uid s)) =
            requests s @ CreateDeployment (Redeployment uid ''preview'') # rest \<and>
          env_requests rest = []"
proof (cases "createDeployment_call vercel (Redeployment uid ''preview'')")
  case (Inr response)
  then show ?thesis by (simp add: redeployExisting_def)
next
  case (Inl err)
  let ?s1 = "warn ''Failed to redeploy existing deployment, creating new one instead...''
          (send (CreateDeployment (Redeployment uid ''preview''))
             (log (''Redeploying existing deployment (ID: '' @ uid @ '')...'') s))"
  show ?thesis
  proof (cases "getConfig env ?s1")
    case (Pair a s2)
    have r2: "requests s2 = requests ?s1"
      using requests_getConfig [of env ?s1] Pair by simp
    show ?thesis
    proof (cases a)
      case (Exit c)
      with Pair Inl r2 show ?thesis by (simp add: redeployExisting_def)
    next
      case (Return config)
      with Pair Inl r2 show ?thesis
        by (simp add: redeployExisting_def createDeployment_requests)
    qed
  qed
qed

lemma listed_uid_absent [simp]: "listed_uid None B = None"
  by (simp add: listed_uid_def)

lemma env_requests_step3:
  "env_requests (requests (snd
     (if \<not> falsy existing
      then redeployExisting Vercel env vercel (template existing) (log m1 s)
      else createDeployment vercel pid B (log m2 s)))) = env_requests (requests s)"
proof (cases "falsy existing")
  case True
  then show ?thesis by (simp add: createDeployment_requests)
next
  case False
  from redeployExisting_requests [of Vercel env vercel "template existing" "log m1 s"]
  obtain rest where
    "requests (snd (redeployExisting Vercel env vercel (template existing) (log m1 s))) =
       requests (log m1 s) @ CreateDeployment (Redeployment (template existing) ''preview'') # rest"
    and "env_requests rest = []" by blast
  with False show ?thesis by simp
qed

lemma listed_id_truthy: "listed_id listing = Some i \<Longrightarrow> i \<noteq> []"
  by (auto simp: listed_id_def id_or_null_def or_null_def falsy_def
      split: option.splits if_splits)

lemma upsert_request_cases:
  "upsert_request p (listed_id listing) u =
     (case listed_id listing of
        None \<Rightarrow> CreateEnvironmentVariable p (requestBody u)
      | Some i \<Rightarrow> EditEnvironmentVariable p i (requestBody u))"
  by (auto simp: upsert_request_def falsy_def template_def dest: listed_id_truthy
      split: option.splits)

lemma run_env_requests:
  assumes "configured_as env tok pid B"
    and "getDeployments (Vercel tok) pid 50 = Inr deployments"
    and "getEnvironmentVariables (Vercel tok) pid = Inr envs"
  shows "env_requests (requests (snd (main Vercel env))) =
           [upsert_request pid (listed_id envs) (url_of B)]"
proof -
  let ?s3 = "send (GetEnvironmentVariables pid)
      (log ''Fetching VITE_API_URL environment variable ID...''
        (send (GetDeployments pid 50) (log ''Checking for existing deployments...''
          (log (''Target API URL: '' @ url_of B)
             (log (''Starting Vercel deployment management for branch: '' @ B) initial)))))"
  show ?thesis
  proof (cases "upsert_answer (Vercel tok) pid (listed_id envs) (url_of B)")
    case (Inl err)
    from updateEnvVar_failed [OF Inl, of ?s3] obtain s' where
      u: "updateEnvVar (Vercel tok) pid (listed_id envs) (url_of B) ?s3 =
            error (''Failed to update environment variable: '' @ err) s'"
      and r: "requests s' = requests ?s3 @ [upsert_request pid (listed_id envs) (url_of B)]"
      by blast
    have "main Vercel env = error (''Failed to update environment variable: '' @ err) s'"
      by (simp only: main_configured [OF assms(1)] Let_def
          checkExistingDeployment_listed [OF assms(2)] getEnvVarId_listed [OF assms(3)]
          and_then_Return u and_then_error)
    then show ?thesis by (simp add: r initial_def)
  next
    case (Inr ok)
    from updateEnvVar_done [OF Inr, of ?s3] obtain s4 where
      u: "updateEnvVar (Vercel tok) pid (listed_id envs) (url_of B) ?s3 = (Return (), s4)"
      and r: "requests s4 = requests ?s3 @ [upsert_request pid (listed_id envs) (url_of B)]"
      by blast
    have "main Vercel env =
        and_then
          (if \<not> falsy (listed_uid deployments B)
           then redeployExisting Vercel env (Vercel tok) (template (listed_uid deployments B))
                  (log (''Found existing deployment: '' @ template (listed_uid deployments B)) s4)
           else createDeployment (Vercel tok) pid B
                  (log (''No existing deployment found for branch: '' @ B) s4))
          (\<lambda>_ s5. (Return (), log ''Vercel deployment process completed successfully!'' s5))"
      by (simp only: main_configured [OF assms(1)] Let_def
          checkExistingDeployment_listed [OF assms(2)] getEnvVarId_listed [OF assms(3)]
          and_then_Return u)
    then show ?thesis
      by (simp only: requests_finish env_requests_step3) (simp add: r initial_def)
  qed
qed

lemma listed_id_examples [simp]:
  "listed_id (Some []) = None"
  "listed_id (Some [\<lparr>e_id = Some ''env_1'', e_key = Some ''VITE_API_URL''\<rparr>]) = Some ''env_1''"
  by (simp_all add: listed_id_def viteApiUrlEnv_def id_or_null_def or_null_def falsy_def)

subsection \<open>Selection\<close>

lemma includes_str_sublist: "includes_str s t \<longleftrightarrow> sublist t s"
  by (induction s) (auto simp: sublist_Cons_right)

lemma matchesBranch_spec: "matchesBranch d B \<longleftrightarrow> spec_branchMatch d B"
  by (auto simp: matchesBranch_def spec_branchMatch_def includes_str_sublist
      split: option.splits)

lemma selected_spec: "(matchesBranch d B \<and> isActiveState d) \<longleftrightarrow> spec_selected d B"
  by (simp add: matchesBranch_spec spec_selected_def isActiveState_def)

lemma existingDeployment_none:
  "(\<forall>d\<in>set L. \<not> spec_selected d B) \<Longrightarrow> existingDeployment L B = None"
  by (simp add: existingDeployment_def find_None_iff selected_spec)

lemma existingDeployment_first:
  "i < length L \<Longrightarrow> spec_selected (L ! i) B \<Longrightarrow> (\<forall>j<i. \<not> spec_selected (L ! j) B)
   \<Longrightarrow> existingDeployment L B = Some (L ! i)"
  unfolding existingDeployment_def find_Some_iff selected_spec by blast

lemma lower_feature [simp]:
  "toLowerCase ''feature'' = ''feature''"
  "toLowerCase ''PR-Feature-2'' = ''pr-feature-2''"
  "toLowerCase ''pr-feature'' = ''pr-feature''"
  by (simp_all add: toLowerCase_def toLowerCase_char_def)

subsection \<open>The shell script's filter\<close>

text \<open>
  The first \<open>select\<close> of the jq program hands \<open>test\<close> a boolean for every element, so
  the program prints nothing, whatever the list.
\<close>

lemma jq_lines_nothing: "jq_lines regex L B = []"
  by (cases L) (simp_all add: select_branch_def jq_or_def jq_test_def)

lemma check_existing_deployment_jq_nothing:
  "check_existing_deployment_jq regex listing B = []"
  by (simp add: check_existing_deployment_jq_def jq_lines_nothing head_1_def
      split: option.splits)

section \<open>The claims\<close>

text \<open>
  Claim C1, as amended. For every deployment list \<open>L\<close> and branch \<open>B\<close>,
  \<open>checkExistingDeployment\<close> goes by the first element of \<open>L\<close>, in input order, whose
  branch reference equals \<open>B\<close> or whose display name contains \<open>B\<close> as a substring
  regardless of case, and whose state is \<open>READY\<close> or \<open>BUILDING\<close>: it returns that
  element's identifier when the identifier is present and non-empty, and none when it is
  absent or empty. It returns none when no element satisfies both conditions.
\<close>

theorem checkExistingDeployment_first_match:
  assumes "getDeployments vercel projectId 50 = Inr (Some L)"
  shows "((\<forall>d\<in>set L. \<not> spec_selected d B) \<longrightarrow>
            fst (checkExistingDeployment vercel projectId B s) = Return None) \<and>
         (\<forall>i<length L. spec_selected (L ! i) B \<and> (\<forall>j<i. \<not> spec_selected (L ! j) B) \<longrightarrow>
            fst (checkExistingDeployment vercel projectId B s) =
              Return (if falsy (d_uid (L ! i)) then None else d_uid (L ! i)))"
proof (intro conjI impI allI)
  assume "\<forall>d\<in>set L. \<not> spec_selected d B"
  then show "fst (checkExistingDeployment vercel projectId B s) = Return None"
    by (simp add: checkExistingDeployment_listed [OF assms] listed_uid_def
        existingDeployment_none uid_or_null_def)
next
  fix i
  assume "i < length L" and "spec_selected (L ! i) B \<and> (\<forall>j<i. \<not> spec_selected (L ! j) B)"
  then have "existingDeployment L B = Some (L ! i)"
    using existingDeployment_first by blast
  then show "fst (checkExistingDeployment vercel projectId B s) =
              Return (if falsy (d_uid (L ! i)) then None else d_uid (L ! i))"
    by (simp add: checkExistingDeployment_listed [OF assms] listed_uid_def uid_or_null_def
        or_null_def)
qed

theorem checkExistingDeployment_first_match_witness:
  "\<not> spec_selected \<lparr>d_uid = Some ''dpl_1'', d_name = Some ''pr-feature'',
                     d_state = Some ''ERROR'', d_meta_githubCommitRef = Some ''feature''\<rparr>
        ''feature'' \<and>
   spec_selected \<lparr>d_uid = Some ''dpl_2'', d_name = Some ''PR-Feature-2'',
                   d_state = Some ''BUILDING'', d_meta_githubCommitRef = None\<rparr>
        ''feature'' \<and>
   fst (checkExistingDeployment
          (fixed_platform
             (Inr (Some [\<lparr>d_uid = Some ''dpl_1'', d_name = Some ''pr-feature'',
                           d_state = Some ''ERROR'', d_meta_githubCommitRef = Some ''feature''\<rparr>,
                         \<lparr>d_uid = Some ''dpl_2'', d_name = Some ''PR-Feature-2'',
                           d_state = Some ''BUILDING'', d_meta_githubCommitRef = None\<rparr>,
                         \<lparr>d_uid = Some ''dpl_3'', d_name = Some ''pr-feature'',
                           d_state = Some ''READY'', d_meta_githubCommitRef = Some ''feature''\<rparr>]))
             (Inr None) (Inr ()) (Inr no_url) (Inr no_url) ''tok'')
          ''prj_1'' ''feature'' initial) = Return (Some ''dpl_2'') \<and>
   fst (checkExistingDeployment
          (fixed_platform
             (Inr (Some [\<lparr>d_uid = Some ''dpl_1'', d_name = Some ''pr-feature'',
                           d_state = Some ''ERROR'', d_meta_githubCommitRef = Some ''feature''\<rparr>]))
             (Inr None) (Inr ()) (Inr no_url) (Inr no_url) ''tok'')
          ''prj_1'' ''feature'' initial) = Return None"
proof -
  let ?d1 = "\<lparr>d_uid = Some ''dpl_1'', d_name = Some ''pr-feature'',
               d_state = Some ''ERROR'', d_meta_githubCommitRef = Some ''feature''\<rparr>"
  let ?d2 = "\<lparr>d_uid = Some ''dpl_2'', d_name = Some ''PR-Feature-2'',
               d_state = Some ''BUILDING'', d_meta_githubCommitRef = None\<rparr>"
  let ?d3 = "\<lparr>d_uid = Some ''dpl_3'', d_name = Some ''pr-feature'',
               d_state = Some ''READY'', d_meta_githubCommitRef = Some ''feature''\<rparr>"
  let ?P = "\<lambda>L. fixed_platform (Inr (Some L)) (Inr None) (Inr ()) (Inr no_url) (Inr no_url) ''tok''"
  have n1: "\<not> spec_selected ?d1 ''feature''"
    by (simp add: spec_selected_def)
  have y2: "spec_selected ?d2 ''feature''"
    by (simp add: spec_selected_def spec_branchMatch_def includes_str_sublist [symmetric])
  have a: "getDeployments (?P [?d1, ?d2, ?d3]) ''prj_1'' 50 = Inr (Some [?d1, ?d2, ?d3])"
    and b: "getDeployments (?P [?d1]) ''prj_1'' 50 = Inr (Some [?d1])"
    by simp_all
  have first: "spec_selected ([?d1, ?d2, ?d3] ! 1) ''feature'' \<and>
      (\<forall>j<1. \<not> spec_selected ([?d1, ?d2, ?d3] ! j) ''feature'')"
    using n1 y2 by simp
  have "fst (checkExistingDeployment (?P [?d1, ?d2, ?d3]) ''prj_1'' ''feature'' initial) =
          Return (Some ''dpl_2'')"
    using checkExistingDeployment_first_match [OF a, of "''feature''" initial,
        THEN conjunct2, rule_format, of 1] first
    by (simp add: falsy_def)
  moreover have "fst (checkExistingDeployment (?P [?d1]) ''prj_1'' ''feature'' initial) =
          Return None"
    using checkExistingDeployment_first_match [OF b, of "''feature''" initial,
        THEN conjunct1] n1
    by simp
  ultimately show ?thesis using n1 y2 by simp
qed

text \<open>
  The claim as first stated fails on a list whose only element satisfies both conditions
  and carries the empty identifier: \<open>uid || null\<close> turns it into none.
\<close>

theorem checkExistingDeployment_empty_uid_counterexample:
  "spec_selected \<lparr>d_uid = Some '''', d_name = Some ''pr-feature'',
                   d_state = Some ''READY'', d_meta_githubCommitRef = Some ''feature''\<rparr>
        ''feature'' \<and>
   fst (checkExistingDeployment
          (fixed_platform
             (Inr (Some [\<lparr>d_uid = Some '''', d_name = Some ''pr-feature'',
                           d_state = Some ''READY'', d_meta_githubCommitRef = Some ''feature''\<rparr>]))
             (Inr None) (Inr ()) (Inr no_url) (Inr no_url) ''tok'')
          ''prj_1'' ''feature'' initial) = Return None \<and>
   Return None \<noteq>
     Return (d_uid \<lparr>d_uid = Some '''', d_name = Some ''pr-feature'',
                     d_state = Some ''READY'', d_meta_githubCommitRef = Some ''feature''\<rparr>)"
  by (simp add: spec_selected_def spec_branchMatch_def checkExistingDeployment_def
      existingDeployment_def matchesBranch_def isActiveState_def uid_or_null_def or_null_def
      falsy_def)

text \<open>
  Claim C2, as amended. In every run in which the request of the upsert step (the create
  or the edit of the environment variable) fails, the failure is printed as an error and
  the run ends there with status 1: the upsert request is the last request of the run,
  and no deploy or redeploy request is sent.
\<close>

theorem upsert_failure_aborts:
  assumes "configured_as env tok pid B"
    and "getDeployments (Vercel tok) pid 50 = Inr deployments"
    and "getEnvironmentVariables (Vercel tok) pid = Inr envs"
    and "upsert_answer (Vercel tok) pid (listed_id envs) (url_of B) = Inl err"
  shows "fst (main Vercel env) = Exit 1 \<and>
         last (console (snd (main Vercel env))) =
           (ERROR, ''Failed to update environment variable: '' @ err) \<and>
         requests (snd (main Vercel env)) =
           [GetDeployments pid 50, GetEnvironmentVariables pid,
            upsert_request pid (listed_id envs) (url_of B)] \<and>
         deploy_requests (requests (snd (main Vercel env))) = []"
proof -
  let ?s3 = "send (GetEnvironmentVariables pid)
      (log ''Fetching VITE_API_URL environment variable ID...''
        (send (GetDeployments pid 50) (log ''Checking for existing deployments...''
          (log (''Target API URL: '' @ url_of B)
             (log (''Starting Vercel deployment management for branch: '' @ B) initial)))))"
  from updateEnvVar_failed [OF assms(4), of ?s3] obtain s' where
    u: "updateEnvVar (Vercel tok) pid (listed_id envs) (url_of B) ?s3 =
          error (''Failed to update environment variable: '' @ err) s'"
    and r: "requests s' = requests ?s3 @ [upsert_request pid (listed_id envs) (url_of B)]"
    by blast
  have run: "main Vercel env = error (''Failed to update environment variable: '' @ err) s'"
    by (simp only: main_configured [OF assms(1)] Let_def
        checkExistingDeployment_listed [OF assms(2)] getEnvVarId_listed [OF assms(3)]
        and_then_Return u and_then_error)
  have rs: "requests (snd (main Vercel env)) =
      [GetDeployments pid 50, GetEnvironmentVariables pid,
       upsert_request pid (listed_id envs) (url_of B)]"
    by (simp add: run r initial_def)
  have "deploy_requests (requests (snd (main Vercel env))) = []"
    by (simp add: rs upsert_request_def)
  with rs show ?thesis by (simp add: run)
qed

theorem upsert_failure_aborts_witness:
  "configured_as full_env ''tok'' ''prj_1'' ''feature'' \<and>
   upsert_answer
     (fixed_platform (Inr (Some [])) (Inr (Some [])) (Inl ''boom'') (Inr no_url) (Inr no_url) ''tok'')
     ''prj_1'' (listed_id (Some [])) (url_of ''feature'') = Inl ''boom'' \<and>
   fst (main (fixed_platform (Inr (Some [])) (Inr (Some [])) (Inl ''boom'') (Inr no_url) (Inr no_url))
          full_env) = Exit 1 \<and>
   last (console (snd (main
      (fixed_platform (Inr (Some [])) (Inr (Some [])) (Inl ''boom'') (Inr no_url) (Inr no_url))
      full_env))) = (ERROR, ''Failed to update environment variable: boom'') \<and>
   deploy_requests (requests (snd (main
      (fixed_platform (Inr (Some [])) (Inr (Some [])) (Inl ''boom'') (Inr no_url) (Inr no_url))
      full_env))) = []"
  using upsert_failure_aborts [OF configured_as_full_env,
      of "fixed_platform (Inr (Some [])) (Inr (Some [])) (Inl ''boom'') (Inr no_url) (Inr no_url)"
         "Some []" "Some []" "''boom''"]
    configured_as_full_env
  by (simp add: upsert_request_def)

text \<open>
  The claim as first stated, that the run goes on to the deploy step after a failed
  upsert, fails on a run whose create request is refused: the run ends with status 1
  after three requests, none of which is a deployment.
\<close>

theorem upsert_failure_counterexample:
  "fst (main (fixed_platform (Inr (Some [])) (Inr (Some [])) (Inl ''boom'') (Inr no_url) (Inr no_url))
          full_env) = Exit 1 \<and>
   requests (snd (main
      (fixed_platform (Inr (Some [])) (Inr (Some [])) (Inl ''boom'') (Inr no_url) (Inr no_url))
      full_env)) =
     [GetDeployments ''prj_1'' 50, GetEnvironmentVariables ''prj_1'',
      CreateEnvironmentVariable ''prj_1''
        \<lparr>b_key = ''VITE_API_URL'',
         b_value = ''https://api.pr-feature.deploy-preview.mrdibre.com'',
         b_type = ''plain'', b_target = [''preview'']\<rparr>]"
  by (simp add: main_configured [OF configured_as_full_env] checkExistingDeployment_def
      getEnvVarId_def updateEnvVar_def viteApiUrlEnv_def id_or_null_def falsy_def url_of_def
      requestBody_def initial_def)

text \<open>
  Claim C3. In every run where step 1 found an existing deployment and the redeploy
  request fails, the run falls back once to the create-new-deployment request for the
  same project and branch: the deployment requests of the run are exactly the redeploy
  and then the create. The redeploy error is not printed as an error; when the create
  succeeds the run ends normally with no error line, and when the create fails the run
  ends with status 1 and the error line of the create.
\<close>

theorem redeploy_failure_falls_back:
  assumes "configured_as env tok pid B"
    and "getDeployments (Vercel tok) pid 50 = Inr deployments"
    and "listed_uid deployments B = Some uid"
    and "getEnvironmentVariables (Vercel tok) pid = Inr envs"
    and "upsert_answer (Vercel tok) pid (listed_id envs) (url_of B) = Inr ()"
    and "createDeployment_call (Vercel tok) (Redeployment uid ''preview'') = Inl err"
  shows "deploy_requests (requests (snd (main Vercel env))) =
           [Redeployment uid ''preview'',
            NewDeployment (''pr-'' @ B) pid ''preview'' ''github'' B] \<and>
         (case createDeployment_call (Vercel tok)
                 (NewDeployment (''pr-'' @ B) pid ''preview'' ''github'' B) of
            Inl err' \<Rightarrow>
              fst (main Vercel env) = Exit 1 \<and>
              last (console (snd (main Vercel env))) =
                (ERROR, ''Failed to create new deployment: '' @ err')
          | Inr response \<Rightarrow>
              fst (main Vercel env) = Return () \<and>
              (\<forall>m. (ERROR, m) \<notin> set (console (snd (main Vercel env)))))"
proof -
  let ?s3 = "send (GetEnvironmentVariables pid)
      (log ''Fetching VITE_API_URL environment variable ID...''
        (send (GetDeployments pid 50) (log ''Checking for existing deployments...''
          (log (''Target API URL: '' @ url_of B)
             (log (''Starting Vercel deployment management for branch: '' @ B) initial)))))"
  let ?new = "NewDeployment (''pr-'' @ B) pid ''preview'' ''github'' B"
  from updateEnvVar_done [OF assms(5), of ?s3] obtain s4 where
    u: "updateEnvVar (Vercel tok) pid (listed_id envs) (url_of B) ?s3 = (Return (), s4)"
    and r: "requests s4 = requests ?s3 @ [upsert_request pid (listed_id envs) (url_of B)]"
    and e: "\<forall>m. (ERROR, m) \<in> set (console s4) \<longrightarrow> (ERROR, m) \<in> set (console ?s3)"
    by blast
  have clean: "(ERROR, m) \<notin> set (console s4)" for m
    using e no_error_lines_before_upsert by blast
  have truthy: "\<not> falsy (Some uid)"
    using listed_uid_truthy [OF assms(3)] by (simp add: falsy_def)
  let ?s5 = "warn ''Failed to redeploy existing deployment, creating new one instead...''
          (send (CreateDeployment (Redeployment uid ''preview''))
             (log (''Redeploying existing deployment (ID: '' @ uid @ '')...'')
                (log (''Found existing deployment: '' @ uid) s4)))"
  have run: "main Vercel env =
      and_then (createDeployment (Vercel tok) pid B ?s5)
        (\<lambda>_ s5. (Return (), log ''Vercel deployment process completed successfully!'' s5))"
    using truthy
    by (simp only: main_configured [OF assms(1)] Let_def
        checkExistingDeployment_listed [OF assms(2)] getEnvVarId_listed [OF assms(4)]
        and_then_Return u assms(3) if_True not_False_eq_True template_def option.case
        redeployExisting_failed [OF assms(1) assms(6)])
  have rs: "deploy_requests (requests ?s5) = [Redeployment uid ''preview'']"
    by (simp add: r initial_def upsert_request_def)
  show ?thesis
  proof (cases "createDeployment_call (Vercel tok) ?new")
    case (Inl err')
    have "main Vercel env = error (''Failed to create new deployment: '' @ err')
            (send (CreateDeployment ?new) (log ''Creating new deployment...'' ?s5))"
      by (simp only: run createDeployment_failed [OF Inl] and_then_error)
    then show ?thesis using Inl rs
      by (simp add: r initial_def upsert_request_def)
  next
    case (Inr response)
    have "main Vercel env = (Return (),
        log ''Vercel deployment process completed successfully!''
          (report ''New deployment created successfully!'' ''Deployment triggered successfully''
             response (send (CreateDeployment ?new) (log ''Creating new deployment...'' ?s5))))"
      by (simp only: run createDeployment_done [OF Inr] and_then_Return)
    then show ?thesis using Inr rs clean
      by (simp add: r initial_def upsert_request_def)
  qed
qed

theorem redeploy_failure_falls_back_witness:
  "configured_as full_env ''tok'' ''prj_1'' ''feature'' \<and>
   deploy_requests (requests (snd (main
     (fixed_platform
        (Inr (Some [\<lparr>d_uid = Some ''dpl_1'', d_name = Some ''pr-feature'',
                      d_state = Some ''READY'', d_meta_githubCommitRef = Some ''feature''\<rparr>]))
        (Inr (Some [])) (Inr ()) (Inl ''gone'') (Inr no_url))
     full_env))) =
     [Redeployment ''dpl_1'' ''preview'',
      NewDeployment ''pr-feature'' ''prj_1'' ''preview'' ''github'' ''feature''] \<and>
   fst (main
     (fixed_platform
        (Inr (Some [\<lparr>d_uid = Some ''dpl_1'', d_name = Some ''pr-feature'',
                      d_state = Some ''READY'', d_meta_githubCommitRef = Some ''feature''\<rparr>]))
        (Inr (Some [])) (Inr ()) (Inl ''gone'') (Inr no_url))
     full_env) = Return () \<and>
   fst (main
     (fixed_platform
        (Inr (Some [\<lparr>d_uid = Some ''dpl_1'', d_name = Some ''pr-feature'',
                      d_state = Some ''READY'', d_meta_githubCommitRef = Some ''feature''\<rparr>]))
        (Inr (Some [])) (Inr ()) (Inl ''gone'') (Inl ''quota''))
     full_env) = Exit 1 \<and>
   last (console (snd (main
     (fixed_platform
        (Inr (Some [\<lparr>d_uid = Some ''dpl_1'', d_name = Some ''pr-feature'',
                      d_state = Some ''READY'', d_meta_githubCommitRef = Some ''feature''\<rparr>]))
        (Inr (Some [])) (Inr ()) (Inl ''gone'') (Inl ''quota''))
     full_env))) = (ERROR, ''Failed to create new deployment: quota'')"
  using redeploy_failure_falls_back [OF configured_as_full_env,
      of "fixed_platform
        (Inr (Some [\<lparr>d_uid = Some ''dpl_1'', d_name = Some ''pr-feature'',
                      d_state = Some ''READY'', d_meta_githubCommitRef = Some ''feature''\<rparr>]))
        (Inr (Some [])) (Inr ()) (Inl ''gone'') (Inr no_url)"
        "Some [\<lparr>d_uid = Some ''dpl_1'', d_name = Some ''pr-feature'',
                      d_state = Some ''READY'', d_meta_githubCommitRef = Some ''feature''\<rparr>]"
        "''dpl_1''" "Some []" "''gone''"]
    redeploy_failure_falls_back [OF configured_as_full_env,
      of "fixed_platform
        (Inr (Some [\<lparr>d_uid = Some ''dpl_1'', d_name = Some ''pr-feature'',
                      d_state = Some ''READY'', d_meta_githubCommitRef = Some ''feature''\<rparr>]))
        (Inr (Some [])) (Inr ()) (Inl ''gone'') (Inl ''quota'')"
        "Some [\<lparr>d_uid = Some ''dpl_1'', d_name = Some ''pr-feature'',
                      d_state = Some ''READY'', d_meta_githubCommitRef = Some ''feature''\<rparr>]"
        "''dpl_1''" "Some []" "''gone''"]
    configured_as_full_env
  by simp

text \<open>
  Claim C4. When the listing of deployments (step 1) or the listing of environment
  variables (step 2) fails, the run ends at once with status 1 and the error line of
  that step; the failed listing is the last request of the run, so the failure is not
  read as "nothing found" and no later step runs.
\<close>

theorem lookup_failure_aborts:
  assumes "configured_as env tok pid B"
  shows "(getDeployments (Vercel tok) pid 50 = Inl err \<longrightarrow>
            fst (main Vercel env) = Exit 1 \<and>
            requests (snd (main Vercel env)) = [GetDeployments pid 50] \<and>
            last (console (snd (main Vercel env))) =
              (ERROR, ''Failed to fetch deployments: '' @ err)) \<and>
         (getDeployments (Vercel tok) pid 50 = Inr deployments \<and>
          getEnvironmentVariables (Vercel tok) pid = Inl err \<longrightarrow>
            fst (main Vercel env) = Exit 1 \<and>
            requests (snd (main Vercel env)) =
              [GetDeployments pid 50, GetEnvironmentVariables pid] \<and>
            last (console (snd (main Vercel env))) =
              (ERROR, ''Failed to fetch environment variables: '' @ err))"
proof (intro conjI impI)
  assume d: "getDeployments (Vercel tok) pid 50 = Inl err"
  have run: "main Vercel env =
      error (''Failed to fetch deployments: '' @ err)
        (send (GetDeployments pid 50) (log ''Checking for existing deployments...''
          (log (''Target API URL: '' @ url_of B)
             (log (''Starting Vercel deployment management for branch: '' @ B) initial))))"
    by (simp only: main_configured [OF assms] Let_def checkExistingDeployment_failed [OF d]
        and_then_error)
  show "fst (main Vercel env) = Exit 1" by (simp add: run)
  show "requests (snd (main Vercel env)) = [GetDeployments pid 50]"
    by (simp add: run initial_def)
  show "last (console (snd (main Vercel env))) = (ERROR, ''Failed to fetch deployments: '' @ err)"
    by (simp only: run last_console_error)
next
  assume "getDeployments (Vercel tok) pid 50 = Inr deployments \<and>
          getEnvironmentVariables (Vercel tok) pid = Inl err"
  then have d: "getDeployments (Vercel tok) pid 50 = Inr deployments"
    and e: "getEnvironmentVariables (Vercel tok) pid = Inl err" by simp_all
  have run: "main Vercel env =
      error (''Failed to fetch environment variables: '' @ err)
        (send (GetEnvironmentVariables pid)
          (log ''Fetching VITE_API_URL environment variable ID...''
        (send (GetDeployments pid 50) (log ''Checking for existing deployments...''
          (log (''Target API URL: '' @ url_of B)
             (log (''Starting Vercel deployment management for branch: '' @ B) initial))))))"
    by (simp only: main_configured [OF assms] Let_def checkExistingDeployment_listed [OF d]
        and_then_Return getEnvVarId_failed [OF e] and_then_error)
  show "fst (main Vercel env) = Exit 1" by (simp add: run)
  show "requests (snd (main Vercel env)) = [GetDeployments pid 50, GetEnvironmentVariables pid]"
    by (simp add: run initial_def)
  show "last (console (snd (main Vercel env))) =
          (ERROR, ''Failed to fetch environment variables: '' @ err)"
    by (simp only: run last_console_error)
qed

theorem lookup_failure_aborts_witness:
  "configured_as full_env ''tok'' ''prj_1'' ''feature'' \<and>
   fst (main (fixed_platform (Inl ''401'') (Inr None) (Inr ()) (Inr no_url) (Inr no_url))
          full_env) = Exit 1 \<and>
   requests (snd (main (fixed_platform (Inl ''401'') (Inr None) (Inr ()) (Inr no_url) (Inr no_url))
          full_env)) = [GetDeployments ''prj_1'' 50] \<and>
   fst (main (fixed_platform (Inr (Some [])) (Inl ''429'') (Inr ()) (Inr no_url) (Inr no_url))
          full_env) = Exit 1 \<and>
   requests (snd (main (fixed_platform (Inr (Some [])) (Inl ''429'') (Inr ()) (Inr no_url) (Inr no_url))
          full_env)) = [GetDeployments ''prj_1'' 50, GetEnvironmentVariables ''prj_1''] \<and>
   last (console (snd (main
          (fixed_platform (Inr (Some [])) (Inl ''429'') (Inr ()) (Inr no_url) (Inr no_url))
          full_env))) = (ERROR, ''Failed to fetch environment variables: 429'')"
  using lookup_failure_aborts [OF configured_as_full_env,
      of "fixed_platform (Inl ''401'') (Inr None) (Inr ()) (Inr no_url) (Inr no_url)"
         "''401''" "None"]
    lookup_failure_aborts [OF configured_as_full_env,
      of "fixed_platform (Inr (Some [])) (Inl ''429'') (Inr ()) (Inr no_url) (Inr no_url)"
         "''429''" "Some []"]
    configured_as_full_env
  by simp

text \<open>
  Claim C5. When any of the four required variables (token, project identifier,
  organization identifier, branch) is missing or empty, the run ends with status 1,
  its only output is the error line naming a missing variable, and no request has been
  sent to the platform.
\<close>

theorem missing_configuration_aborts:
  assumes "v \<in> set requiredVars" and "falsy (env v)"
  shows "fst (main Vercel env) = Exit 1 \<and> requests (snd (main Vercel env)) = [] \<and>
         (\<exists>w\<in>set requiredVars. falsy (env w) \<and>
            console (snd (main Vercel env)) =
              [(ERROR, ''Missing required environment variable: '' @ w)])"
proof -
  from assms have "\<not> configured env"
    by (auto simp: configured_def list_all_iff)
  from getConfig_missing [OF this, of initial] obtain w where
    w: "w \<in> set requiredVars" "falsy (env w)" and
    g: "getConfig env initial = (Exit 1, initial\<lparr>console := console initial @
             [(ERROR, ''Missing required environment variable: '' @ w)]\<rparr>)"
    by blast
  have "main Vercel env = (Exit 1, initial\<lparr>console := console initial @
             [(ERROR, ''Missing required environment variable: '' @ w)]\<rparr>)"
    by (simp add: main_def main_from_def g)
  with w show ?thesis by (auto simp: initial_def)
qed

theorem missing_configuration_aborts_witness:
  "''FE_BRANCH'' \<in> set requiredVars \<and>
   falsy (env_of [(''VERCEL_TOKEN'', ''tok''), (''VERCEL_PROJECT_ID'', ''prj_1''),
                  (''VERCEL_ORG_ID'', ''team_1''), (''FE_BRANCH'', '''')] ''FE_BRANCH'') \<and>
   fst (main (fixed_platform (Inr None) (Inr None) (Inr ()) (Inr no_url) (Inr no_url))
          (env_of [(''VERCEL_TOKEN'', ''tok''), (''VERCEL_PROJECT_ID'', ''prj_1''),
                   (''VERCEL_ORG_ID'', ''team_1''), (''FE_BRANCH'', '''')])) = Exit 1 \<and>
   requests (snd (main (fixed_platform (Inr None) (Inr None) (Inr ()) (Inr no_url) (Inr no_url))
          (env_of [(''VERCEL_TOKEN'', ''tok''), (''VERCEL_PROJECT_ID'', ''prj_1''),
                   (''VERCEL_ORG_ID'', ''team_1''), (''FE_BRANCH'', '''')]))) = []"
proof -
  have a: "''FE_BRANCH'' \<in> set requiredVars" by (simp add: requiredVars_def)
  have b: "falsy (env_of [(''VERCEL_TOKEN'', ''tok''), (''VERCEL_PROJECT_ID'', ''prj_1''),
                  (''VERCEL_ORG_ID'', ''team_1''), (''FE_BRANCH'', '''')] ''FE_BRANCH'')"
    by (simp add: env_of_def falsy_def)
  show ?thesis
    using missing_configuration_aborts [of "''FE_BRANCH''"
        "env_of [(''VERCEL_TOKEN'', ''tok''), (''VERCEL_PROJECT_ID'', ''prj_1''),
                 (''VERCEL_ORG_ID'', ''team_1''), (''FE_BRANCH'', '''')]"
        "fixed_platform (Inr None) (Inr None) (Inr ()) (Inr no_url) (Inr no_url)"] a b
    by simp
qed

text \<open>
  Claim C6. The upsert step sends exactly one request: with no identifier, a create with
  key \<open>VITE_API_URL\<close>, the target URL as value, type \<open>plain\<close> and target \<open>preview\<close>;
  with an identifier, an edit of that identifier with the same body. In a run, the only
  request on the variable is the create when step 2 found no identifier and the edit of
  the found identifier otherwise; and a listing whose first \<open>VITE_API_URL\<close> entry carries
  a non-empty identifier, as after a first run's create, gives that identifier, so the
  second run edits and does not create again.
\<close>

theorem upsert_creates_or_edits:
  "(falsy envVarId \<longrightarrow>
      requests (snd (updateEnvVar vercel projectId envVarId url s)) =
        requests s @
        [CreateEnvironmentVariable projectId
           \<lparr>b_key = ''VITE_API_URL'', b_value = url, b_type = ''plain'',
            b_target = [''preview'']\<rparr>]) \<and>
   (i \<noteq> [] \<longrightarrow>
      requests (snd (updateEnvVar vercel projectId (Some i) url s)) =
        requests s @
        [EditEnvironmentVariable projectId i
           \<lparr>b_key = ''VITE_API_URL'', b_value = url, b_type = ''plain'',
            b_target = [''preview'']\<rparr>]) \<and>
   (configured_as env tok pid B \<and> getDeployments (Vercel tok) pid 50 = Inr deployments \<and>
    getEnvironmentVariables (Vercel tok) pid = Inr envs \<longrightarrow>
      env_requests (requests (snd (main Vercel env))) =
        [case listed_id envs of
           None \<Rightarrow>
             CreateEnvironmentVariable pid
               \<lparr>b_key = ''VITE_API_URL'', b_value = url_of B, b_type = ''plain'',
                b_target = [''preview'']\<rparr>
         | Some found \<Rightarrow>
             EditEnvironmentVariable pid found
               \<lparr>b_key = ''VITE_API_URL'', b_value = url_of B, b_type = ''plain'',
                b_target = [''preview'']\<rparr>]) \<and>
   (viteApiUrlEnv listed = Some e \<and> e_id e = Some i \<and> i \<noteq> [] \<longrightarrow>
      listed_id (Some listed) = Some i)"
proof (intro conjI impI)
  assume "falsy envVarId"
  then show "requests (snd (updateEnvVar vercel projectId envVarId url s)) =
        requests s @
        [CreateEnvironmentVariable projectId
           \<lparr>b_key = ''VITE_API_URL'', b_value = url, b_type = ''plain'',
            b_target = [''preview'']\<rparr>]"
    by (simp add: updateEnvVar_requests upsert_request_def requestBody_def)
next
  assume "i \<noteq> []"
  then show "requests (snd (updateEnvVar vercel projectId (Some i) url s)) =
        requests s @
        [EditEnvironmentVariable projectId i
           \<lparr>b_key = ''VITE_API_URL'', b_value = url, b_type = ''plain'',
            b_target = [''preview'']\<rparr>]"
    by (simp add: updateEnvVar_requests upsert_request_def requestBody_def falsy_def
        template_def)
next
  assume "configured_as env tok pid B \<and> getDeployments (Vercel tok) pid 50 = Inr deployments \<and>
    getEnvironmentVariables (Vercel tok) pid = Inr envs"
  then have "env_requests (requests (snd (main Vercel env))) =
           [upsert_request pid (listed_id envs) (url_of B)]"
    using run_env_requests by blast
  then show "env_requests (requests (snd (main Vercel env))) =
        [case listed_id envs of
           None \<Rightarrow>
             CreateEnvironmentVariable pid
               \<lparr>b_key = ''VITE_API_URL'', b_value = url_of B, b_type = ''plain'',
                b_target = [''preview'']\<rparr>
         | Some found \<Rightarrow>
             EditEnvironmentVariable pid found
               \<lparr>b_key = ''VITE_API_URL'', b_value = url_of B, b_type = ''plain'',
                b_target = [''preview'']\<rparr>]"
    by (simp add: upsert_request_cases requestBody_def split: option.splits)
next
  assume "viteApiUrlEnv listed = Some e \<and> e_id e = Some i \<and> i \<noteq> []"
  then show "listed_id (Some listed) = Some i"
    by (simp add: listed_id_def id_or_null_def or_null_def falsy_def)
qed

theorem upsert_creates_or_edits_witness:
  "falsy None \<and>
   requests (snd (updateEnvVar
      (fixed_platform (Inr (Some [])) (Inr (Some [])) (Inr ()) (Inr no_url) (Inr no_url) ''tok'')
      ''prj_1'' None ''https://x'' initial)) =
     [CreateEnvironmentVariable ''prj_1''
        \<lparr>b_key = ''VITE_API_URL'', b_value = ''https://x'', b_type = ''plain'',
         b_target = [''preview'']\<rparr>] \<and>
   requests (snd (updateEnvVar
      (fixed_platform (Inr (Some [])) (Inr (Some [])) (Inr ()) (Inr no_url) (Inr no_url) ''tok'')
      ''prj_1'' (Some ''env_1'') ''https://x'' initial)) =
     [EditEnvironmentVariable ''prj_1'' ''env_1''
        \<lparr>b_key = ''VITE_API_URL'', b_value = ''https://x'', b_type = ''plain'',
         b_target = [''preview'']\<rparr>] \<and>
   configured_as full_env ''tok'' ''prj_1'' ''feature'' \<and>
   env_requests (requests (snd (main
      (fixed_platform (Inr (Some [])) (Inr (Some [])) (Inr ()) (Inr no_url) (Inr no_url))
      full_env))) =
     [CreateEnvironmentVariable ''prj_1''
        \<lparr>b_key = ''VITE_API_URL'',
         b_value = ''https://api.pr-feature.deploy-preview.mrdibre.com'',
         b_type = ''plain'', b_target = [''preview'']\<rparr>] \<and>
   env_requests (requests (snd (main
      (fixed_platform (Inr (Some []))
         (Inr (Some [\<lparr>e_id = Some ''env_1'', e_key = Some ''VITE_API_URL''\<rparr>]))
         (Inr ()) (Inr no_url) (Inr no_url))
      full_env))) =
     [EditEnvironmentVariable ''prj_1'' ''env_1''
        \<lparr>b_key = ''VITE_API_URL'',
         b_value = ''https://api.pr-feature.deploy-preview.mrdibre.com'',
         b_type = ''plain'', b_target = [''preview'']\<rparr>]"
  using upsert_creates_or_edits [of None
      "fixed_platform (Inr (Some [])) (Inr (Some [])) (Inr ()) (Inr no_url) (Inr no_url) ''tok''"
      "''prj_1''" "''https://x''" initial "''env_1''" full_env "''tok''" "''prj_1''" "''feature''"
      "fixed_platform (Inr (Some [])) (Inr (Some [])) (Inr ()) (Inr no_url) (Inr no_url)"
      "Some []" "Some []"]
    upsert_creates_or_edits [of None
      "fixed_platform (Inr (Some [])) (Inr (Some [])) (Inr ()) (Inr no_url) (Inr no_url) ''tok''"
      "''prj_1''" "''https://x''" initial "''env_1''" full_env "''tok''" "''prj_1''" "''feature''"
      "fixed_platform (Inr (Some []))
         (Inr (Some [\<lparr>e_id = Some ''env_1'', e_key = Some ''VITE_API_URL''\<rparr>]))
         (Inr ()) (Inr no_url) (Inr no_url)"
      "Some []" "Some [\<lparr>e_id = Some ''env_1'', e_key = Some ''VITE_API_URL''\<rparr>]"]
    configured_as_full_env
  by (simp add: falsy_def initial_def url_of_def)

text \<open>
  Claim C7. For every branch name \<open>B\<close> with which the script is configured, the derived
  target API URL is the concatenation \<open>https://api.pr-\<close>, \<open>B\<close>,
  \<open>.deploy-preview.mrdibre.com\<close>, with \<open>B\<close> as it is, and the request that creates a
  new deployment carries the display name \<open>pr-\<close> followed by \<open>B\<close>.
\<close>

theorem derived_names:
  assumes "configured env" and "env ''FE_BRANCH'' = Some B"
  shows "(\<exists>config. getConfig env s = (Return config, s) \<and> c_branch config = B \<and>
            c_targetApiUrl config = ''https://api.pr-'' @ B @ ''.deploy-preview.mrdibre.com'') \<and>
         requests (snd (createDeployment vercel projectId B s)) =
           requests s @
           [CreateDeployment (NewDeployment (''pr-'' @ B) projectId ''preview'' ''github'' B)]"
  using assms by (simp add: getConfig_ok createDeployment_requests template_def)

theorem derived_names_witness:
  "configured full_env \<and> full_env ''FE_BRANCH'' = Some ''feature'' \<and>
   (\<exists>config. getConfig full_env initial = (Return config, initial) \<and>
      c_branch config = ''feature'' \<and>
      c_targetApiUrl config = ''https://api.pr-feature.deploy-preview.mrdibre.com'') \<and>
   requests (snd (createDeployment
                    (fixed_platform (Inr None) (Inr None) (Inr ()) (Inr no_url) (Inr no_url) ''tok'')
                    ''prj_1'' ''feature'' initial)) =
     [CreateDeployment (NewDeployment ''pr-feature'' ''prj_1'' ''preview'' ''github'' ''feature'')]"
proof -
  have b: "full_env ''FE_BRANCH'' = Some ''feature''"
    by (simp add: full_env_def env_of_def)
  show ?thesis
    using derived_names [OF configured_full_env b, of initial
        "fixed_platform (Inr None) (Inr None) (Inr ()) (Inr no_url) (Inr no_url) ''tok''"
        "''prj_1''"]
      configured_full_env b
    by (simp add: initial_def)
qed

text \<open>
  Claim C8, as amended. For every list of environment-variable records, \<open>getEnvVarId\<close>
  goes by the first element whose key is \<open>VITE_API_URL\<close>: it returns that element's
  identifier when the identifier is present and non-empty, and none when it is absent or
  empty; it returns none when no element has that key. The elements after the first
  match play no part.
\<close>

theorem getEnvVarId_first_match:
  assumes "getEnvironmentVariables vercel projectId = Inr (Some envs)"
  shows "((\<forall>e\<in>set envs. e_key e \<noteq> Some ''VITE_API_URL'') \<longrightarrow>
            fst (getEnvVarId vercel projectId s) = Return None) \<and>
         (\<forall>i<length envs.
            e_key (envs ! i) = Some ''VITE_API_URL'' \<and>
            (\<forall>j<i. e_key (envs ! j) \<noteq> Some ''VITE_API_URL'') \<longrightarrow>
            fst (getEnvVarId vercel projectId s) =
              Return (if falsy (e_id (envs ! i)) then None else e_id (envs ! i)))"
proof (intro conjI impI allI)
  assume "\<forall>e\<in>set envs. e_key e \<noteq> Some ''VITE_API_URL''"
  then have "viteApiUrlEnv envs = None"
    by (simp add: viteApiUrlEnv_def find_None_iff)
  then show "fst (getEnvVarId vercel projectId s) = Return None"
    by (simp add: getEnvVarId_listed [OF assms] listed_id_def id_or_null_def)
next
  fix i
  assume "i < length envs"
    and "e_key (envs ! i) = Some ''VITE_API_URL'' \<and>
         (\<forall>j<i. e_key (envs ! j) \<noteq> Some ''VITE_API_URL'')"
  then have "viteApiUrlEnv envs = Some (envs ! i)"
    unfolding viteApiUrlEnv_def find_Some_iff by blast
  then show "fst (getEnvVarId vercel projectId s) =
              Return (if falsy (e_id (envs ! i)) then None else e_id (envs ! i))"
    by (simp add: getEnvVarId_listed [OF assms] listed_id_def id_or_null_def or_null_def)
qed

theorem getEnvVarId_first_match_witness:
  "fst (getEnvVarId
          (fixed_platform (Inr None)
             (Inr (Some [\<lparr>e_id = Some ''env_1'', e_key = Some ''NODE_ENV''\<rparr>,
                         \<lparr>e_id = Some ''env_2'', e_key = Some ''VITE_API_URL''\<rparr>,
                         \<lparr>e_id = Some ''env_3'', e_key = Some ''VITE_API_URL''\<rparr>]))
             (Inr ()) (Inr no_url) (Inr no_url) ''tok'')
          ''prj_1'' initial) = Return (Some ''env_2'') \<and>
   fst (getEnvVarId
          (fixed_platform (Inr None)
             (Inr (Some [\<lparr>e_id = Some ''env_1'', e_key = Some ''NODE_ENV''\<rparr>]))
             (Inr ()) (Inr no_url) (Inr no_url) ''tok'')
          ''prj_1'' initial) = Return None"
proof -
  let ?e1 = "\<lparr>e_id = Some ''env_1'', e_key = Some ''NODE_ENV''\<rparr>"
  let ?e2 = "\<lparr>e_id = Some ''env_2'', e_key = Some ''VITE_API_URL''\<rparr>"
  let ?e3 = "\<lparr>e_id = Some ''env_3'', e_key = Some ''VITE_API_URL''\<rparr>"
  let ?P = "\<lambda>L. fixed_platform (Inr None) (Inr (Some L)) (Inr ()) (Inr no_url) (Inr no_url) ''tok''"
  have a: "getEnvironmentVariables (?P [?e1, ?e2, ?e3]) ''prj_1'' = Inr (Some [?e1, ?e2, ?e3])"
    and b: "getEnvironmentVariables (?P [?e1]) ''prj_1'' = Inr (Some [?e1])"
    by simp_all
  have first: "e_key ([?e1, ?e2, ?e3] ! 1) = Some ''VITE_API_URL'' \<and>
      (\<forall>j<1. e_key ([?e1, ?e2, ?e3] ! j) \<noteq> Some ''VITE_API_URL'')"
    by simp
  have "fst (getEnvVarId (?P [?e1, ?e2, ?e3]) ''prj_1'' initial) = Return (Some ''env_2'')"
    using getEnvVarId_first_match [OF a, of initial, THEN conjunct2, rule_format, of 1] first
    by (simp add: falsy_def)
  moreover have "fst (getEnvVarId (?P [?e1]) ''prj_1'' initial) = Return None"
    using getEnvVarId_first_match [OF b, of initial, THEN conjunct1]
    by simp
  ultimately show ?thesis by simp
qed

text \<open>
  The claim as first stated fails on a list whose first \<open>VITE_API_URL\<close> entry carries the
  empty identifier: the result is none, although an element has the key (and a later one
  has an identifier).
\<close>

theorem getEnvVarId_empty_id_counterexample:
  "e_key \<lparr>e_id = Some '''', e_key = Some ''VITE_API_URL''\<rparr> = Some ''VITE_API_URL'' \<and>
   fst (getEnvVarId
          (fixed_platform (Inr None)
             (Inr (Some [\<lparr>e_id = Some '''', e_key = Some ''VITE_API_URL''\<rparr>,
                         \<lparr>e_id = Some ''env_2'', e_key = Some ''VITE_API_URL''\<rparr>]))
             (Inr ()) (Inr no_url) (Inr no_url) ''tok'')
          ''prj_1'' initial) = Return None \<and>
   Return None \<noteq> Return (e_id \<lparr>e_id = Some '''', e_key = Some ''VITE_API_URL''\<rparr>)"
  by (simp add: getEnvVarId_def viteApiUrlEnv_def id_or_null_def or_null_def falsy_def)

text \<open>
  Claim C9 does not hold of the code: on a list with one \<open>READY\<close> deployment whose branch
  reference is the branch, the shell filter leaves the empty string (no deployment),
  for every regular-expression matcher, while \<open>checkExistingDeployment\<close> returns the
  deployment's identifier.
\<close>

theorem shell_filter_misses_ready_deployment:
  "\<forall>regex.
     check_existing_deployment_jq regex
       (Some [\<lparr>d_uid = Some ''dpl_1'', d_name = Some ''pr-feature'',
                d_state = Some ''READY'', d_meta_githubCommitRef = Some ''feature''\<rparr>])
       ''feature'' = [] \<and>
     fst (checkExistingDeployment
            (fixed_platform
               (Inr (Some [\<lparr>d_uid = Some ''dpl_1'', d_name = Some ''pr-feature'',
                             d_state = Some ''READY'',
                             d_meta_githubCommitRef = Some ''feature''\<rparr>]))
               (Inr None) (Inr ()) (Inr no_url) (Inr no_url) ''tok'')
            ''prj_1'' ''feature'' initial) = Return (Some ''dpl_1'')"
  by (simp add: check_existing_deployment_jq_nothing checkExistingDeployment_listed)

text \<open>
  Claim C10. When the listing of deployments arrives without its \<open>deployments\<close> field,
  \<open>checkExistingDeployment\<close> returns none and does not end the process, and the run
  takes the create-new-deployment path: its only deployment request is the create for
  the configured branch, sent as soon as steps 2 and 3 have let the run through (a
  failed listing of the variables or a failed upsert ends the run before it).
\<close>

theorem absent_deployments_field_creates:
  assumes "configured_as env tok pid B"
    and "getDeployments (Vercel tok) pid 50 = Inr None"
  shows "fst (checkExistingDeployment (Vercel tok) pid B s) = Return None \<and>
         deploy_requests (requests (snd (main Vercel env))) =
           (case getEnvironmentVariables (Vercel tok) pid of
              Inl err \<Rightarrow> []
            | Inr envs \<Rightarrow>
                (case upsert_answer (Vercel tok) pid (listed_id envs) (url_of B) of
                   Inl err \<Rightarrow> []
                 | Inr ok \<Rightarrow> [NewDeployment (''pr-'' @ B) pid ''preview'' ''github'' B]))"
proof
  show "fst (checkExistingDeployment (Vercel tok) pid B s) = Return None"
    by (simp add: checkExistingDeployment_listed [OF assms(2)])
next
  let ?s2 = "send (GetDeployments pid 50) (log ''Checking for existing deployments...''
          (log (''Target API URL: '' @ url_of B)
             (log (''Starting Vercel deployment management for branch: '' @ B) initial)))"
  let ?s3 = "send (GetEnvironmentVariables pid)
      (log ''Fetching VITE_API_URL environment variable ID...'' ?s2)"
  let ?rhs = "case getEnvironmentVariables (Vercel tok) pid of
              Inl err \<Rightarrow> []
            | Inr envs \<Rightarrow>
                (case upsert_answer (Vercel tok) pid (listed_id envs) (url_of B) of
                   Inl err \<Rightarrow> []
                 | Inr ok \<Rightarrow> [NewDeployment (''pr-'' @ B) pid ''preview'' ''github'' B])"
  show "deploy_requests (requests (snd (main Vercel env))) = ?rhs"
  proof (cases "getEnvironmentVariables (Vercel tok) pid")
    case (Inl err)
    have "main Vercel env = error (''Failed to fetch environment variables: '' @ err) ?s3"
      by (simp only: main_configured [OF assms(1)] Let_def
          checkExistingDeployment_listed [OF assms(2)] and_then_Return
          getEnvVarId_failed [OF Inl] and_then_error)
    then show ?thesis using Inl by (simp add: initial_def)
  next
    case (Inr envs)
    show ?thesis
    proof (cases "upsert_answer (Vercel tok) pid (listed_id envs) (url_of B)")
      case (Inl err)
      from updateEnvVar_failed [OF Inl, of ?s3] obtain s' where
        u: "updateEnvVar (Vercel tok) pid (listed_id envs) (url_of B) ?s3 =
              error (''Failed to update environment variable: '' @ err) s'"
        and r: "requests s' = requests ?s3 @ [upsert_request pid (listed_id envs) (url_of B)]"
        by blast
      have "main Vercel env = error (''Failed to update environment variable: '' @ err) s'"
        by (simp only: main_configured [OF assms(1)] Let_def
            checkExistingDeployment_listed [OF assms(2)] getEnvVarId_listed [OF Inr]
            and_then_Return u and_then_error)
      then show ?thesis using Inl Inr by (simp add: r initial_def)
    next
      case (Inr ok)
      from updateEnvVar_done [OF Inr, of ?s3] obtain s4 where
        u: "updateEnvVar (Vercel tok) pid (listed_id envs) (url_of B) ?s3 = (Return (), s4)"
        and r: "requests s4 = requests ?s3 @ [upsert_request pid (listed_id envs) (url_of B)]"
        by blast
      have none: "falsy (listed_uid None B)" by (simp add: falsy_def)
      have "main Vercel env =
          and_then (createDeployment (Vercel tok) pid B
                      (log (''No existing deployment found for branch: '' @ B) s4))
            (\<lambda>_ s5. (Return (), log ''Vercel deployment process completed successfully!'' s5))"
        using none
        by (simp only: main_configured [OF assms(1)] Let_def
            checkExistingDeployment_listed [OF assms(2)]
            getEnvVarId_listed [OF \<open>getEnvironmentVariables (Vercel tok) pid = Inr envs\<close>]
            and_then_Return u not_True_eq_False if_False)
      then show ?thesis
        using Inr \<open>getEnvironmentVariables (Vercel tok) pid = Inr envs\<close>
        by (simp add: createDeployment_requests r initial_def)
    qed
  qed
qed

theorem absent_deployments_field_creates_witness:
  "configured_as full_env ''tok'' ''prj_1'' ''feature'' \<and>
   getDeployments
     (fixed_platform (Inr None) (Inr (Some [])) (Inr ()) (Inr no_url) (Inr no_url) ''tok'')
     ''prj_1'' 50 = Inr None \<and>
   fst (checkExistingDeployment
          (fixed_platform (Inr None) (Inr (Some [])) (Inr ()) (Inr no_url) (Inr no_url) ''tok'')
          ''prj_1'' ''feature'' initial) = Return None \<and>
   deploy_requests (requests (snd (main
     (fixed_platform (Inr None) (Inr (Some [])) (Inr ()) (Inr no_url) (Inr no_url)) full_env))) =
     [NewDeployment ''pr-feature'' ''prj_1'' ''preview'' ''github'' ''feature'']"
  using absent_deployments_field_creates [OF configured_as_full_env,
      of "fixed_platform (Inr None) (Inr (Some [])) (Inr ()) (Inr no_url) (Inr no_url)" initial]
    configured_as_full_env
  by simp

end
